theory Spec2Isabelle
  imports Main
begin

section \<open>Errors, time and truth values\<close>

text \<open>
  The module \<^verbatim>\<open>baseclasses/models.py\<close> defines abstract Django model classes, their
  managers and four \<^verbatim>\<open>pre_save\<close> receivers. Exceptions are values of \<open>error\<close>; a function
  that can raise returns \<open>error + 'a\<close> with \<open>Inl\<close> for the exception.
\<close>

datatype error = IndexError | AttributeError | TypeError | ValueError

text \<open>
  A \<^verbatim>\<open>datetime.datetime\<close> is its position on the time axis in microseconds, a
  \<^verbatim>\<open>datetime.date\<close> is a day number. \<open>date_of\<close> is \<^verbatim>\<open>datetime.date()\<close>, \<open>midnight\<close> the
  first instant of a day.
\<close>

type_synonym datetime = int
type_synonym date = int

definition microseconds_per_day :: int where
  "microseconds_per_day = 86400000000"

definition date_of :: "datetime \<Rightarrow> date" where
  "date_of t = t div microseconds_per_day"

definition midnight :: "date \<Rightarrow> datetime" where
  "midnight d = d * microseconds_per_day"

text \<open>
  The system clock is read by \<^verbatim>\<open>datetime.datetime.now()\<close> and \<^verbatim>\<open>datetime.date.today()\<close>.
  A \<open>clock\<close> gives the reading returned by the \<open>n\<close>-th read; the number of reads made so
  far is threaded through every function that reads the clock.
\<close>

type_synonym clock = "nat \<Rightarrow> datetime"

definition now :: "clock \<Rightarrow> nat \<Rightarrow> datetime \<times> nat" where
  "now clk s = (clk s, Suc s)"

definition today :: "clock \<Rightarrow> nat \<Rightarrow> date \<times> nat" where
  "today clk s = (date_of (clk s), Suc s)"

text \<open>
  Python's \<^verbatim>\<open>not x\<close>: an attribute holding \<^verbatim>\<open>None\<close> is falsy; dates, datetimes and model
  instances are always truthy; an integer is falsy when it is zero.
\<close>

definition py_not :: "'a option \<Rightarrow> bool" where
  "py_not v = (v = None)"

definition py_not_int :: "int option \<Rightarrow> bool" where
  "py_not_int v = (v = None \<or> v = Some 0)"

section \<open>Classes and instances\<close>

text \<open>
  The abstract classes of the module, and \<open>Concrete name bases\<close> for a model class an
  application declares with the given direct bases. \<open>issubclass\<close> follows the class
  statements of the module: \<^verbatim>\<open>BaseContentModel(DateAuditModel)\<close> and
  \<^verbatim>\<open>BaseContentModelWithImages(BaseContentModel)\<close>; the other four derive from
  \<^verbatim>\<open>models.Model\<close> only.
\<close>

datatype klass =
    DateAuditModel
  | BaseContentModel
  | BaseNamedModel
  | BaseSortedModel
  | BaseContentModelWithImages
  | BaseHierarchyModel
  | Concrete string "klass list"

fun issubclass :: "klass \<Rightarrow> klass \<Rightarrow> bool" where
  "issubclass (Concrete n bs) c = (Concrete n bs = c \<or> list_ex (\<lambda>b. issubclass b c) bs)"
| "issubclass BaseContentModelWithImages c =
     (c = BaseContentModelWithImages \<or> c = BaseContentModel \<or> c = DateAuditModel)"
| "issubclass BaseContentModel c = (c = BaseContentModel \<or> c = DateAuditModel)"
| "issubclass b c = (b = c)"

text \<open>
  A model instance with the attributes the module reads and writes. \<open>cls\<close> is
  \<^verbatim>\<open>instance.__class__\<close>; \<open>parent\<close> is the related object behind the self-referential
  foreign key of \<^verbatim>\<open>BaseHierarchyModel\<close>, so an instance carries its (finite) chain of
  ancestors. An attribute a class does not declare reads as \<open>None\<close>, which is what
  \<^verbatim>\<open>getattr(instance, name, None)\<close> returns for it.
\<close>

datatype model_instance = Instance
  (cls: klass)
  (pk: "int option")
  (creation_date: "datetime option")
  (last_updated: "datetime option")
  (publication_date: "date option")
  (is_live: bool)
  (is_featured: bool)
  (sort_order: "int option")
  (parent: "model_instance option")

definition isinstance :: "model_instance \<Rightarrow> klass \<Rightarrow> bool" where
  "isinstance x c = issubclass (cls x) c"

text \<open>Attribute assignment, one function per attribute the receivers assign.\<close>

fun set_creation_date :: "datetime option \<Rightarrow> model_instance \<Rightarrow> model_instance" where
  "set_creation_date v (Instance c k cd lu pd il ft so p) = Instance c k v lu pd il ft so p"

fun set_last_updated :: "datetime option \<Rightarrow> model_instance \<Rightarrow> model_instance" where
  "set_last_updated v (Instance c k cd lu pd il ft so p) = Instance c k cd v pd il ft so p"

fun set_publication_date_attr :: "date option \<Rightarrow> model_instance \<Rightarrow> model_instance" where
  "set_publication_date_attr v (Instance c k cd lu pd il ft so p) = Instance c k cd lu v il ft so p"

fun set_sort_order_attr :: "int option \<Rightarrow> model_instance \<Rightarrow> model_instance" where
  "set_sort_order_attr v (Instance c k cd lu pd il ft so p) = Instance c k cd lu pd il ft v p"

fun set_parent :: "model_instance option \<Rightarrow> model_instance \<Rightarrow> model_instance" where
  "set_parent v (Instance c k cd lu pd il ft so p) = Instance c k cd lu pd il ft so v"

fun set_pk :: "int option \<Rightarrow> model_instance \<Rightarrow> model_instance" where
  "set_pk v (Instance c k cd lu pd il ft so p) = Instance c v cd lu pd il ft so p"

section \<open>The pre-save receivers\<close>

text \<open>
  \<^verbatim>\<open>date_set\<close> (lines 90-94): for an instance of \<^verbatim>\<open>DateAuditModel\<close>, the creation date is
  assigned when it is falsy, the update date always; each assignment reads the clock.
\<close>

definition date_set :: "clock \<Rightarrow> model_instance \<Rightarrow> nat \<Rightarrow> model_instance \<times> nat" where
  "date_set clk inst s =
     (if isinstance inst DateAuditModel then
        let (inst1, s1) =
              (if py_not (creation_date inst)
               then let (t, s') = now clk s in (set_creation_date (Some t) inst, s')
               else (inst, s));
            (t, s2) = now clk s1
        in (set_last_updated (Some t) inst1, s2)
      else (inst, s))"

text \<open>
  \<^verbatim>\<open>set_publication_date\<close> (lines 153-155) has no \<^verbatim>\<open>isinstance\<close> test: whenever it is
  called, a falsy publication date becomes today's date.
\<close>

definition set_publication_date ::
  "klass \<Rightarrow> clock \<Rightarrow> model_instance \<Rightarrow> nat \<Rightarrow> model_instance \<times> nat" where
  "set_publication_date sender clk inst s =
     (if py_not (publication_date inst)
      then let (d, s') = today clk s in (set_publication_date_attr (Some d) inst, s')
      else (inst, s))"

text \<open>\<^verbatim>\<open>set_sort_order\<close> (lines 185-188).\<close>

definition set_sort_order :: "klass \<Rightarrow> model_instance \<Rightarrow> model_instance" where
  "set_sort_order sender inst =
     (if isinstance inst BaseSortedModel then
        if py_not_int (sort_order inst) then set_sort_order_attr (Some 0) inst else inst
      else inst)"

text \<open>
  \<^verbatim>\<open>check_tree\<close> (lines 267-271) reads the table of the instance's model:
  \<^verbatim>\<open>instance.children.all().count()\<close> counts the stored rows whose \<^verbatim>\<open>parent_id\<close> column is the
  instance's primary key. The column of a row is the primary key of its \<open>parent\<close> object.
  \<open>model_eq\<close> is \<^verbatim>\<open>Model.__eq__\<close> of the Django releases that have \<^verbatim>\<open>get_query_set\<close>:
  \<^verbatim>\<open>isinstance(other, self.__class__) and self.pk == other.pk\<close>. The condition is Python's
  \<^verbatim>\<open>(pk and count) or (parent == instance)\<close>: the count is read only for a truthy primary
  key, and \<^verbatim>\<open>None == instance\<close> is false.
\<close>

definition parent_id :: "model_instance \<Rightarrow> int option" where
  "parent_id r = (case parent r of None \<Rightarrow> None | Some p \<Rightarrow> pk p)"

definition children_count :: "model_instance list \<Rightarrow> int \<Rightarrow> nat" where
  "children_count tbl k = length (filter (\<lambda>r. parent_id r = Some k) tbl)"

definition model_eq :: "model_instance \<Rightarrow> model_instance \<Rightarrow> bool" where
  "model_eq self other = (isinstance other (cls self) \<and> pk self = pk other)"

definition check_tree_condition :: "model_instance list \<Rightarrow> model_instance \<Rightarrow> bool" where
  "check_tree_condition tbl inst =
     ((case pk inst of None \<Rightarrow> False | Some k \<Rightarrow> k \<noteq> 0 \<and> children_count tbl k \<noteq> 0)
      \<or> (case parent inst of None \<Rightarrow> False | Some p \<Rightarrow> model_eq p inst))"

definition check_tree :: "klass \<Rightarrow> model_instance list \<Rightarrow> model_instance \<Rightarrow> model_instance" where
  "check_tree sender tbl inst =
     (if isinstance inst BaseHierarchyModel then
        if check_tree_condition tbl inst then set_parent None inst else inst
      else inst)"

section \<open>Signal dispatch and save\<close>

text \<open>
  The four \<^verbatim>\<open>models.signals.pre_save.connect\<close> statements (lines 95, 156, 189 and 272), in
  the order the module executes them. Three receivers are connected for every sender
  (\<open>None\<close>); \<^verbatim>\<open>set_publication_date\<close> is connected with \<^verbatim>\<open>sender=BaseContentModel\<close>.

  \<open>send\<close> is the dispatcher of Django's \<^verbatim>\<open>Signal.send\<close>: a receiver is called when it was
  connected for every sender or for the very class that sends. \<open>save\<close> is \<^verbatim>\<open>Model.save\<close>:
  it sends \<^verbatim>\<open>pre_save\<close> with \<^verbatim>\<open>sender=instance.__class__\<close> and then writes the row, an
  \<^verbatim>\<open>UPDATE\<close> when a row with the primary key exists and an \<^verbatim>\<open>INSERT\<close> otherwise, with the
  next free key when the instance has none. Both belong to the framework and are
  modelled here after its documented behaviour. The constraints of the columns are not
  part of the model: \<open>write_row\<close> stores a row also where the database would refuse it
  for a null column.
\<close>

type_synonym receiver =
  "klass \<Rightarrow> model_instance list \<Rightarrow> clock \<Rightarrow> model_instance \<Rightarrow> nat \<Rightarrow> model_instance \<times> nat"

definition pre_save_receivers :: "(receiver \<times> klass option) list" where
  "pre_save_receivers =
     [(\<lambda>sender tbl clk inst s. date_set clk inst s, None),
      (\<lambda>sender tbl clk inst s. set_publication_date sender clk inst s, Some BaseContentModel),
      (\<lambda>sender tbl clk inst s. (set_sort_order sender inst, s), None),
      (\<lambda>sender tbl clk inst s. (check_tree sender tbl inst, s), None)]"

fun send ::
  "(receiver \<times> klass option) list \<Rightarrow> klass \<Rightarrow> model_instance list \<Rightarrow> clock \<Rightarrow>
     model_instance \<Rightarrow> nat \<Rightarrow> model_instance \<times> nat" where
  "send [] sender tbl clk inst s = (inst, s)"
| "send ((receiver, r_sender) # rest) sender tbl clk inst s =
     (if r_sender = None \<or> r_sender = Some sender
      then let (inst', s') = receiver sender tbl clk inst s in send rest sender tbl clk inst' s'
      else send rest sender tbl clk inst s)"

definition pre_save :: "model_instance list \<Rightarrow> clock \<Rightarrow> model_instance \<Rightarrow> nat \<Rightarrow> model_instance \<times> nat" where
  "pre_save tbl clk inst s = send pre_save_receivers (cls inst) tbl clk inst s"

definition next_free_pk :: "model_instance list \<Rightarrow> int" where
  "next_free_pk tbl = 1 + fold (\<lambda>r m. case pk r of None \<Rightarrow> m | Some k \<Rightarrow> max k m) tbl 0"

definition write_row :: "model_instance list \<Rightarrow> model_instance \<Rightarrow> model_instance list \<times> model_instance" where
  "write_row tbl inst =
     (case pk inst of
        Some k \<Rightarrow>
          if list_ex (\<lambda>r. pk r = Some k) tbl
          then (map (\<lambda>r. if pk r = Some k then inst else r) tbl, inst)
          else (tbl @ [inst], inst)
      | None \<Rightarrow> let inst' = set_pk (Some (next_free_pk tbl)) inst in (tbl @ [inst'], inst'))"

definition save ::
  "model_instance list \<Rightarrow> clock \<Rightarrow> model_instance \<Rightarrow> nat \<Rightarrow>
     (model_instance list \<times> model_instance) \<times> nat" where
  "save tbl clk inst s = (let (inst', s') = pre_save tbl clk inst s in (write_row tbl inst', s'))"

section \<open>Managers\<close>

text \<open>
  A manager's base query set is the list of the table's rows in the order the query
  returns them. \<^verbatim>\<open>qs[0]\<close> raises \<^verbatim>\<open>IndexError\<close> on an empty query set.
\<close>

definition index0 :: "'a list \<Rightarrow> error + 'a" where
  "index0 xs = (case xs of [] \<Rightarrow> Inl IndexError | x # _ \<Rightarrow> Inr x)"

text \<open>
  The related images of \<^verbatim>\<open>BaseContentModelWithImages\<close>: a row of the image table names the
  record it belongs to by the record's primary key.
\<close>

record image_row =
  image_pk :: int
  owner_id :: int

record table =
  rows :: "model_instance list"
  image_rows :: "image_row list"

datatype manager = Manager | LiveManager | FeaturedManager | FeaturedManagerWithImages

text \<open>
  \<^verbatim>\<open>publication_date__lte=datetime.datetime.now()\<close> on a date column: the column is compared
  with the date of the reading, and a null column never compares.
\<close>

definition publication_date_lte :: "model_instance \<Rightarrow> datetime \<Rightarrow> bool" where
  "publication_date_lte r t =
     (case publication_date r of None \<Rightarrow> False | Some d \<Rightarrow> d \<le> date_of t)"

definition Manager_get_query_set :: "table \<Rightarrow> model_instance list" where
  "Manager_get_query_set db = rows db"

definition LiveManager_get_query_set :: "table \<Rightarrow> clock \<Rightarrow> nat \<Rightarrow> model_instance list \<times> nat" where
  "LiveManager_get_query_set db clk s =
     (let qs = Manager_get_query_set db; (t, s') = now clk s
      in (filter (\<lambda>r. is_live r \<and> publication_date_lte r t) qs, s'))"

definition FeaturedManager_get_query_set :: "table \<Rightarrow> clock \<Rightarrow> nat \<Rightarrow> model_instance list \<times> nat" where
  "FeaturedManager_get_query_set db clk s =
     (let (qs, s') = LiveManager_get_query_set db clk s in (filter is_featured qs, s'))"

text \<open>
  \<^verbatim>\<open>filter(image__isnull=False)\<close> joins the records with their images: a record comes once
  for each of its images and not at all without one. \<^verbatim>\<open>distinct()\<close> drops repeated rows.
\<close>

definition images_of :: "table \<Rightarrow> model_instance \<Rightarrow> image_row list" where
  "images_of db r = filter (\<lambda>i. pk r = Some (owner_id i)) (image_rows db)"

definition filter_image_isnull_False :: "table \<Rightarrow> model_instance list \<Rightarrow> model_instance list" where
  "filter_image_isnull_False db qs = concat (map (\<lambda>r. map (\<lambda>i. r) (images_of db r)) qs)"

definition FeaturedManagerWithImages_get_query_set ::
  "table \<Rightarrow> clock \<Rightarrow> nat \<Rightarrow> model_instance list \<times> nat" where
  "FeaturedManagerWithImages_get_query_set db clk s =
     (let (qs, s') = FeaturedManager_get_query_set db clk s
      in (remdups (filter_image_isnull_False db qs), s'))"

text \<open>\<^verbatim>\<open>self.get_query_set()\<close>: the method of the manager's own class.\<close>

fun get_query_set :: "manager \<Rightarrow> table \<Rightarrow> clock \<Rightarrow> nat \<Rightarrow> model_instance list \<times> nat" where
  "get_query_set Manager db clk s = (Manager_get_query_set db, s)"
| "get_query_set LiveManager db clk s = LiveManager_get_query_set db clk s"
| "get_query_set FeaturedManager db clk s = FeaturedManager_get_query_set db clk s"
| "get_query_set FeaturedManagerWithImages db clk s = FeaturedManagerWithImages_get_query_set db clk s"

text \<open>
  \<^verbatim>\<open>FeaturedManager.get_first\<close> (lines 106-111), inherited by
  \<^verbatim>\<open>FeaturedManagerWithImages\<close>; the other two managers have no such method. The fallback
  is \<^verbatim>\<open>super(FeaturedManager, self).get_query_set()\<close>, the method of \<^verbatim>\<open>LiveManager\<close>, whose
  \<^verbatim>\<open>[0]\<close> stands outside the \<^verbatim>\<open>try\<close>.
\<close>

definition get_first :: "manager \<Rightarrow> table \<Rightarrow> clock \<Rightarrow> nat \<Rightarrow> (error + model_instance) \<times> nat" where
  "get_first self db clk s =
     (if self = FeaturedManager \<or> self = FeaturedManagerWithImages then
        let (qs, s1) = get_query_set self db clk s
        in case index0 qs of
             Inr r \<Rightarrow> (Inr r, s1)
           | Inl IndexError \<Rightarrow>
               (let (live, s2) = LiveManager_get_query_set db clk s1 in (index0 live, s2))
           | Inl e \<Rightarrow> (Inl e, s1)
      else (Inl AttributeError, s))"

text \<open>
  \<^verbatim>\<open>BaseHierarchyModel.get_hierarchy\<close> (lines 258-262). The recursive call passes no
  argument, so the parent's chain always includes the parent.
\<close>

fun get_hierarchy :: "model_instance \<Rightarrow> bool \<Rightarrow> model_instance list" where
  "get_hierarchy (Instance c k cd lu pd il ft so (Some p)) include_self =
     get_hierarchy p True
       @ (if include_self then [Instance c k cd lu pd il ft so (Some p)] else [])"
| "get_hierarchy (Instance c k cd lu pd il ft so None) include_self =
     (if include_self then [Instance c k cd lu pd il ft so None] else [])"

section \<open>Ordered neighbours\<close>

text \<open>
  \<^verbatim>\<open>next_or_prev_in_order\<close> (lines 29-58) works for any model and reads attributes by name,
  so here an object is its attribute dictionary. A column value that can be compared is an
  atom of a linearly ordered type (numbers, dates, names under the collation of the
  database); \<open>VNone\<close> is \<^verbatim>\<open>None\<close> or a null column, \<open>VObj\<close> a related object.
\<close>

datatype 'a pyval = VNone | VAtom 'a | VObj "(string \<times> 'a pyval) list"

fun getattr :: "'a pyval \<Rightarrow> string \<Rightarrow> error + 'a pyval" where
  "getattr (VObj attrs) name =
     (case map_of attrs name of Some v \<Rightarrow> Inr v | None \<Rightarrow> Inl AttributeError)"
| "getattr v name = Inl AttributeError"

text \<open>\<^verbatim>\<open>attr.split('__')\<close>: the pieces between the non-overlapping occurrences of two
  underscores, found from the left.\<close>

fun split_dunder :: "string \<Rightarrow> string list" where
  "split_dunder [] = [[]]"
| "split_dunder [c] = [[c]]"
| "split_dunder (c # d # cs) =
     (if c = CHR ''_'' \<and> d = CHR ''_'' then [] # split_dunder cs
      else (case split_dunder (d # cs) of p # ps \<Rightarrow> (c # p) # ps | [] \<Rightarrow> [[c]]))"

text \<open>\<^verbatim>\<open>get_model_attr\<close> (lines 21-24): the loop over the pieces.\<close>

fun getattr_path :: "'a pyval \<Rightarrow> string list \<Rightarrow> error + 'a pyval" where
  "getattr_path instance [] = Inr instance"
| "getattr_path instance (field # rest) =
     (case getattr instance field of
        Inl e \<Rightarrow> Inl e
      | Inr v \<Rightarrow> getattr_path v rest)"

definition get_model_attr :: "'a pyval \<Rightarrow> string \<Rightarrow> error + 'a pyval" where
  "get_model_attr instance attr = getattr_path instance (split_dunder attr)"

text \<open>
  The framework's query language, as far as the function uses it. A keyword argument
  \<^verbatim>\<open>field__lt=v\<close>, \<^verbatim>\<open>field__gt=v\<close> or \<^verbatim>\<open>field=v\<close> is the pair of the field path and the lookup
  with the value; \<open>Q kwargs\<close> is the conjunction of its keyword arguments and \<open>Q_or\<close> is
  \<^verbatim>\<open>Q.__or__\<close>. A row satisfies a keyword argument when its column, read along the same
  path, compares with the value as the lookup says; a null or missing column satisfies no
  comparison with an atom, and \<^verbatim>\<open>field=None\<close> asks for a null column. A \<^verbatim>\<open>gt\<close> or \<^verbatim>\<open>lt\<close>
  lookup with the value \<^verbatim>\<open>None\<close> is refused when the filter is built: \<^verbatim>\<open>filter\<close> raises
  \<^verbatim>\<open>ValueError\<close> for it (\<open>q_valid\<close>).
\<close>

datatype lookup = Exact | Gt | Lt

datatype 'a Q = Q "((string \<times> lookup) \<times> 'a pyval) list" | Q_or "'a Q" "'a Q"

fun lookup_holds :: "lookup \<Rightarrow> 'a::linorder pyval \<Rightarrow> 'a pyval \<Rightarrow> bool" where
  "lookup_holds Exact (VAtom c) (VAtom v) = (c = v)"
| "lookup_holds Exact VNone VNone = True"
| "lookup_holds Gt (VAtom c) (VAtom v) = (v < c)"
| "lookup_holds Lt (VAtom c) (VAtom v) = (c < v)"
| "lookup_holds lk c v = False"

definition kwarg_holds :: "'a::linorder pyval \<Rightarrow> (string \<times> lookup) \<times> 'a pyval \<Rightarrow> bool" where
  "kwarg_holds row kw =
     (case get_model_attr row (fst (fst kw)) of
        Inr c \<Rightarrow> lookup_holds (snd (fst kw)) c (snd kw)
      | Inl e \<Rightarrow> False)"

fun q_holds :: "'a::linorder Q \<Rightarrow> 'a pyval \<Rightarrow> bool" where
  "q_holds (Q kwargs) row = list_all (kwarg_holds row) kwargs"
| "q_holds (Q_or a b) row = (q_holds a row \<or> q_holds b row)"

definition kwarg_valid :: "(string \<times> lookup) \<times> 'a pyval \<Rightarrow> bool" where
  "kwarg_valid kw = (snd (fst kw) = Exact \<or> snd kw \<noteq> VNone)"

fun q_valid :: "'a Q \<Rightarrow> bool" where
  "q_valid (Q kwargs) = list_all kwarg_valid kwargs"
| "q_valid (Q_or a b) = (q_valid a \<and> q_valid b)"

text \<open>
  The order of a query. A field of \<^verbatim>\<open>ordering\<close> is descending when it starts with a minus
  sign. \<open>precedes fs a b\<close> says that the row \<open>a\<close> sorts strictly before the row \<open>b\<close> under
  the terms \<open>fs\<close> in sequence, each in its direction; two rows that no term tells apart
  tie. \<open>order_rows\<close> puts rows in the order of a comparison and keeps rows that tie in the
  order they had.
\<close>

definition descending :: "string \<Rightarrow> bool" where
  "descending f = (case f of [] \<Rightarrow> False | c # cs \<Rightarrow> c = CHR ''-'')"

definition field_name :: "string \<Rightarrow> string" where
  "field_name f = (if descending f then tl f else f)"

fun precedes :: "string list \<Rightarrow> 'a::linorder pyval \<Rightarrow> 'a pyval \<Rightarrow> bool" where
  "precedes [] a b = False"
| "precedes (f # fs) a b =
     (case (get_model_attr a (field_name f), get_model_attr b (field_name f)) of
        (Inr (VAtom x), Inr (VAtom y)) \<Rightarrow>
          (if descending f then y < x else x < y) \<or> (x = y \<and> precedes fs a b)
      | other \<Rightarrow> False)"

fun insert_row :: "('r \<Rightarrow> 'r \<Rightarrow> bool) \<Rightarrow> 'r \<Rightarrow> 'r list \<Rightarrow> 'r list" where
  "insert_row before x [] = [x]"
| "insert_row before x (y # ys) =
     (if before y x then y # insert_row before x ys else x # y # ys)"

definition order_rows :: "('r \<Rightarrow> 'r \<Rightarrow> bool) \<Rightarrow> 'r list \<Rightarrow> 'r list" where
  "order_rows before xs = foldr (insert_row before) xs []"

text \<open>
  A manager or query set is the list of its rows in the order its query returns them:
  ordered by the terms of \<^verbatim>\<open>Meta.ordering\<close>, rows that tie in every term in the order the
  database gives them, which is the order of all rows where the model declares no
  ordering. The primary key is no term of the order unless \<^verbatim>\<open>Meta.ordering\<close> names it.
  \<^verbatim>\<open>reverse()\<close> flips the direction of each term and nothing else: it returns the rows
  ordered by the flipped terms, tied rows still in the order the database gives them, and
  changes nothing where there is no term. \<^verbatim>\<open>filter(q)\<close> keeps the rows that satisfy \<open>q\<close>, in
  the order of the query. A manager is always truthy, a query set is falsy when it has no
  row. The class of the instance gives \<^verbatim>\<open>_meta.ordering\<close> and the default manager
  \<^verbatim>\<open>objects\<close>.
\<close>

datatype 'a queryable = ManagerOf "'a pyval list" | QuerySet "'a pyval list"

fun qs_rows :: "'a queryable \<Rightarrow> 'a pyval list" where
  "qs_rows (ManagerOf rs) = rs"
| "qs_rows (QuerySet rs) = rs"

fun py_not_qs :: "'a queryable option \<Rightarrow> bool" where
  "py_not_qs None = True"
| "py_not_qs (Some (ManagerOf rs)) = False"
| "py_not_qs (Some (QuerySet rs)) = (rs = [])"

definition reverse :: "string list \<Rightarrow> 'a::linorder queryable \<Rightarrow> 'a queryable" where
  "reverse terms qs = QuerySet (order_rows (\<lambda>a b. precedes terms b a) (qs_rows qs))"

definition filter_q :: "'a::linorder Q \<Rightarrow> 'a queryable \<Rightarrow> error + 'a pyval list" where
  "filter_q q qs =
     (if q_valid q then Inr (filter (q_holds q) (qs_rows qs)) else Inl ValueError)"

record 'a model_class =
  ordering :: "string list"
  objects :: "'a pyval list"

text \<open>
  The body of the \<^verbatim>\<open>for\<close> loop (lines 45-54), with \<^verbatim>\<open>prev_fields\<close> and \<^verbatim>\<open>q_list\<close> as
  accumulators. \<^verbatim>\<open>field[0]\<close> raises \<^verbatim>\<open>IndexError\<close> on an empty name, outside the \<^verbatim>\<open>try\<close>.
  \<open>attr_items\<close> is the list comprehension of line 51; the dictionary built from it and
  the entry added in line 52 are kept as the list of their items (a field named twice
  contributes the same item twice).
\<close>

fun attr_items :: "'a pyval \<Rightarrow> string list \<Rightarrow> error + ((string \<times> lookup) \<times> 'a pyval) list" where
  "attr_items instance [] = Inr []"
| "attr_items instance (f # fs) =
     (case get_model_attr instance f of
        Inl e \<Rightarrow> Inl e
      | Inr v \<Rightarrow>
          (case attr_items instance fs of
             Inl e \<Rightarrow> Inl e
           | Inr kvs \<Rightarrow> Inr (((f, Exact), v) # kvs)))"

fun build_q_list ::
  "lookup \<Rightarrow> 'a pyval \<Rightarrow> string list \<Rightarrow> 'a Q list \<Rightarrow> string list \<Rightarrow> error + 'a Q list" where
  "build_q_list lookup instance prev_fields q_list [] = Inr q_list"
| "build_q_list lookup instance prev_fields q_list ([] # rest) = Inl IndexError"
| "build_q_list lookup instance prev_fields q_list ((c # cs) # rest) =
     (let this_lookup = (if c = CHR ''-'' then (if lookup = Gt then Lt else Gt) else lookup);
          field = (if c = CHR ''-'' then cs else c # cs)
      in case attr_items instance prev_fields of
           Inl e \<Rightarrow> Inl e
         | Inr q_kwargs \<Rightarrow>
             (case get_model_attr instance field of
                Inl e \<Rightarrow> Inl e
              | Inr v \<Rightarrow>
                  build_q_list lookup instance (prev_fields @ [field])
                    (q_list @ [Q (q_kwargs @ [((field, this_lookup), v)])]) rest))"

text \<open>\<^verbatim>\<open>reduce(models.Q.__or__, q_list)\<close>; on an empty list \<^verbatim>\<open>reduce\<close> raises \<^verbatim>\<open>TypeError\<close>.\<close>

fun reduce_or :: "'a Q list \<Rightarrow> error + 'a Q" where
  "reduce_or [] = Inl TypeError"
| "reduce_or (q # qs) = Inr (foldl Q_or q qs)"

definition choose_qs :: "'a model_class \<Rightarrow> 'a queryable option \<Rightarrow> 'a queryable" where
  "choose_qs model qs =
     (case qs of
        None \<Rightarrow> ManagerOf (objects model)
      | Some given \<Rightarrow> if py_not_qs qs then ManagerOf (objects model) else given)"

definition next_or_prev_in_order ::
  "'a::linorder model_class \<Rightarrow> 'a pyval \<Rightarrow> bool \<Rightarrow> 'a queryable option \<Rightarrow> error + 'a pyval option" where
  "next_or_prev_in_order model instance prev qs =
     (let qs0 = choose_qs model qs;
          qs1 = (if prev then reverse (ordering model) qs0 else qs0);
          lookup = (if prev then Lt else Gt);
          names = (if ordering model \<noteq> [] then ordering model else []) @ [''pk'']
      in case build_q_list lookup instance [] [] names of
           Inl e \<Rightarrow> Inl e
         | Inr q_list \<Rightarrow>
             (case reduce_or q_list of
                Inl e \<Rightarrow> Inl e
              | Inr q \<Rightarrow>
                  (case filter_q q qs1 of
                     Inl e \<Rightarrow> Inl e
                   | Inr found \<Rightarrow>
                       (case index0 found of
                          Inr r \<Rightarrow> Inr (Some r)
                        | Inl IndexError \<Rightarrow> Inr None
                        | Inl e \<Rightarrow> Inl e))))"

section \<open>The declared total order\<close>

text \<open>
  Named after the specification's words, to be compared with the function above. The
  total order of the records of a model is \<open>precedes\<close> by the declared ordering fields
  followed by \<^verbatim>\<open>pk\<close> ascending. A record is comparable in the fields when every field has
  a name and the record holds an atom in it.
\<close>

definition comparable_in :: "string list \<Rightarrow> 'a pyval \<Rightarrow> bool" where
  "comparable_in fs this =
     list_all (\<lambda>f. f \<noteq> [] \<and> (case get_model_attr this (field_name f) of
                                   Inr (VAtom x) \<Rightarrow> True
                                 | other \<Rightarrow> False)) fs"

section \<open>The ancestor chain and the two-level restriction\<close>

text \<open>
  Named after the specification's words, to be compared with the functions above:
  \<open>ancestors\<close> is the chain of a record's ancestors, the parent first and the root last.
  \<open>has_children\<close> says that a stored row names the record as its parent, \<open>two_level\<close>
  that no row of the table has both a parent and a child, \<open>no_self_parent\<close> that no row
  is its own parent.
\<close>

fun ancestors :: "model_instance \<Rightarrow> model_instance list" where
  "ancestors (Instance c k cd lu pd il ft so (Some p)) = p # ancestors p"
| "ancestors (Instance c k cd lu pd il ft so None) = []"




section \<open>Example data\<close>

definition audited_example :: model_instance where
  "audited_example =
     Instance (Concrete ''Entry'' [DateAuditModel]) None None None None False False None None"

text \<open>
  A model of categories that derives from \<^verbatim>\<open>BaseHierarchyModel\<close>: a root, a child of the
  root, and tables holding them.
\<close>

definition category :: "int option \<Rightarrow> model_instance option \<Rightarrow> model_instance" where
  "category k p =
     Instance (Concrete ''Category'' [BaseHierarchyModel]) k None None None False False None p"

definition top_category :: model_instance where
  "top_category = category (Some 1) None"

definition sub_category :: model_instance where
  "sub_category = category (Some 2) (Some top_category)"






text \<open>
  A model of articles that derives from \<^verbatim>\<open>BaseContentModelWithImages\<close>, a table of four
  articles of which the fourth has two images, and a clock whose readings lie on day 25.
\<close>

definition article :: "int \<Rightarrow> date option \<Rightarrow> bool \<Rightarrow> bool \<Rightarrow> model_instance" where
  "article k d live featured =
     Instance (Concrete ''Article'' [BaseContentModelWithImages]) (Some k) (Some 0) (Some 0) d
       live featured None None"

definition newsroom :: table where
  "newsroom =
     \<lparr>rows = [article 1 (Some 10) True False, article 2 (Some 20) True True,
              article 3 (Some 30) True True, article 4 (Some 5) True True,
              article 5 (Some 7) False True],
      image_rows = [\<lparr>image_pk = 1, owner_id = 4\<rparr>, \<lparr>image_pk = 2, owner_id = 4\<rparr>,
                    \<lparr>image_pk = 3, owner_id = 1\<rparr>]\<rparr>"

definition quiet_newsroom :: table where
  "quiet_newsroom =
     \<lparr>rows = [article 3 (Some 30) True True, article 1 (Some 10) True False], image_rows = []\<rparr>"

definition closed_newsroom :: table where
  "closed_newsroom =
     \<lparr>rows = [article 3 (Some 30) True True, article 5 (Some 7) False True], image_rows = []\<rparr>"

definition day_clock :: clock where
  "day_clock n = midnight 25 + int n"

definition unpublished_article :: model_instance where
  "unpublished_article =
     Instance (Concrete ''Article'' [BaseContentModel]) None None None None True False None None"

text \<open>
  A model of entries ordered by publication date and creation date, both descending, and
  its four rows in that order; the second and the third differ in the primary key only.
\<close>

definition entry_row :: "int \<Rightarrow> int \<Rightarrow> int \<Rightarrow> int pyval" where
  "entry_row k p c =
     VObj [(''pk'', VAtom k), (''publication_date'', VAtom p), (''creation_date'', VAtom c)]"

definition entries :: "int model_class" where
  "entries =
     \<lparr>ordering = [''-publication_date'', ''-creation_date''],
      objects = [entry_row 3 30 1, entry_row 1 20 5, entry_row 2 20 5, entry_row 4 20 2]\<rparr>"

text \<open>
  Three entries of the same model that tie in both ordering fields, and three rows of a
  model that declares no ordering; in both the rows come in the order of their primary
  keys.
\<close>

definition tied_entries :: "int model_class" where
  "tied_entries =
     \<lparr>ordering = [''-publication_date'', ''-creation_date''],
      objects = [entry_row 1 20 5, entry_row 2 20 5, entry_row 3 20 5]\<rparr>"

definition unordered_rows :: "int model_class" where
  "unordered_rows =
     \<lparr>ordering = [], objects = [entry_row 1 20 5, entry_row 2 30 4, entry_row 3 10 6]\<rparr>"

text \<open>
  Two rows of a model ordered by the rank of a related author, and a manager of the
  entries that leaves the second entry out.
\<close>

definition authored_row :: "int \<Rightarrow> int \<Rightarrow> int pyval" where
  "authored_row k rank = VObj [(''pk'', VAtom k), (''author'', VObj [(''rank'', VAtom rank)])]"

definition authored_rows :: "int model_class" where
  "authored_rows =
     \<lparr>ordering = [''author__rank''], objects = [authored_row 2 1, authored_row 1 4]\<rparr>"

definition first_and_third :: "int queryable" where
  "first_and_third = ManagerOf [entry_row 1 20 5, entry_row 3 20 5]"

text \<open>A clock that gives the same reading at every read.\<close>

definition stalled_clock :: clock where
  "stalled_clock n = 7"

section \<open>Attribute assignment and the audit dates\<close>

lemma cls_set [simp]:
  "cls (set_creation_date v x) = cls x" "cls (set_last_updated v x) = cls x"
  "cls (set_publication_date_attr d x) = cls x" "cls (set_sort_order_attr n x) = cls x"
  "cls (set_parent p x) = cls x" "cls (set_pk k x) = cls x"
  by (cases x; simp)+

lemma pk_set [simp]:
  "pk (set_creation_date v x) = pk x" "pk (set_last_updated v x) = pk x"
  "pk (set_publication_date_attr d x) = pk x" "pk (set_sort_order_attr n x) = pk x"
  "pk (set_parent p x) = pk x" "pk (set_pk k x) = k"
  by (cases x; simp)+

lemma creation_date_set [simp]:
  "creation_date (set_creation_date v x) = v" "creation_date (set_last_updated v x) = creation_date x"
  "creation_date (set_publication_date_attr d x) = creation_date x"
  "creation_date (set_sort_order_attr n x) = creation_date x"
  "creation_date (set_parent p x) = creation_date x" "creation_date (set_pk k x) = creation_date x"
  by (cases x; simp)+

lemma last_updated_set [simp]:
  "last_updated (set_creation_date v x) = last_updated x" "last_updated (set_last_updated v x) = v"
  "last_updated (set_publication_date_attr d x) = last_updated x"
  "last_updated (set_sort_order_attr n x) = last_updated x"
  "last_updated (set_parent p x) = last_updated x" "last_updated (set_pk k x) = last_updated x"
  by (cases x; simp)+

lemma publication_date_set [simp]:
  "publication_date (set_creation_date v x) = publication_date x"
  "publication_date (set_last_updated v x) = publication_date x"
  "publication_date (set_publication_date_attr d x) = d"
  "publication_date (set_sort_order_attr n x) = publication_date x"
  "publication_date (set_parent p x) = publication_date x"
  "publication_date (set_pk k x) = publication_date x"
  by (cases x; simp)+

lemma parent_set [simp]:
  "parent (set_creation_date v x) = parent x" "parent (set_last_updated v x) = parent x"
  "parent (set_publication_date_attr d x) = parent x" "parent (set_sort_order_attr n x) = parent x"
  "parent (set_parent p x) = p" "parent (set_pk k x) = parent x"
  by (cases x; simp)+

lemma isinstance_set [simp]:
  "isinstance (set_creation_date v x) c = isinstance x c"
  "isinstance (set_last_updated v x) c = isinstance x c"
  "isinstance (set_publication_date_attr d x) c = isinstance x c"
  "isinstance (set_sort_order_attr n x) c = isinstance x c"
  "isinstance (set_parent p x) c = isinstance x c"
  "isinstance (set_pk k x) c = isinstance x c"
  by (simp_all add: isinstance_def)

lemma date_set_fresh:
  "isinstance inst DateAuditModel \<Longrightarrow> creation_date inst = None \<Longrightarrow>
   date_set clk inst s = (set_last_updated (Some (clk (Suc s))) (set_creation_date (Some (clk s)) inst), Suc (Suc s))"
  by (simp add: date_set_def py_not_def now_def)

lemma date_set_again:
  "isinstance inst DateAuditModel \<Longrightarrow> creation_date inst = Some c \<Longrightarrow>
   date_set clk inst s = (set_last_updated (Some (clk s)) inst, Suc s)"
  by (simp add: date_set_def py_not_def now_def)

lemma date_set_other:
  "\<not> isinstance inst DateAuditModel \<Longrightarrow> date_set clk inst s = (inst, s)"
  by (simp add: date_set_def)

section \<open>The managers\<close>

lemma date_le_datetime: "d \<le> date_of t \<longleftrightarrow> midnight d \<le> t"
proof -
  let ?D = microseconds_per_day
  have pos: "0 < ?D" by (simp add: microseconds_per_day_def)
  show ?thesis
  proof
    assume "d \<le> date_of t"
    then have "d * ?D \<le> (t div ?D) * ?D"
      using pos by (simp add: date_of_def mult_right_mono)
    also have "(t div ?D) * ?D \<le> t"
      using pos by (metis mult.commute pos_mod_sign mult_div_mod_eq le_add_same_cancel1)
    finally show "midnight d \<le> t" by (simp add: midnight_def)
  next
    assume "midnight d \<le> t"
    then have "d * ?D \<le> t" by (simp add: midnight_def)
    then have "(d * ?D) div ?D \<le> t div ?D"
      using pos by (rule zdiv_mono1)
    then show "d \<le> date_of t" using pos by (simp add: date_of_def)
  qed
qed

lemma live_query_set:
  "LiveManager_get_query_set db clk s =
     (filter (\<lambda>r. is_live r \<and> publication_date_lte r (clk s)) (rows db), Suc s)"
  by (simp add: LiveManager_get_query_set_def Manager_get_query_set_def now_def)

lemma featured_query_set:
  "FeaturedManager_get_query_set db clk s =
     (filter is_featured (fst (LiveManager_get_query_set db clk s)), Suc s)"
  by (simp add: FeaturedManager_get_query_set_def live_query_set)

lemma featured_with_images_query_set:
  "FeaturedManagerWithImages_get_query_set db clk s =
     (remdups (filter_image_isnull_False db (fst (FeaturedManager_get_query_set db clk s))), Suc s)"
  by (simp add: FeaturedManagerWithImages_get_query_set_def featured_query_set)

lemma get_query_set_reads_once:
  "m \<noteq> Manager \<Longrightarrow> snd (get_query_set m db clk s) = Suc s"
  by (cases m) (simp_all add: live_query_set featured_query_set featured_with_images_query_set)



lemma article_eq:
  "article k d l f = article k' d' l' f' \<longleftrightarrow> k = k' \<and> d = d' \<and> l = l' \<and> f = f'"
  by (auto simp: article_def)

text \<open>
  Claim C7. At every reading of the clock, the query set of \<^verbatim>\<open>LiveManager\<close> holds exactly
  the rows of the table whose \<^verbatim>\<open>is_live\<close> flag is set and whose publication date is at or
  before the reading: the date is at most the date of the reading, which is the same as
  the first instant of that date being at most the reading. The rows keep the order of
  the table.
\<close>

theorem live_view:
  "set (fst (LiveManager_get_query_set db clk s)) =
     {r \<in> set (rows db). is_live r \<and> (\<exists>d. publication_date r = Some d \<and> d \<le> date_of (clk s))}
   \<and> set (fst (LiveManager_get_query_set db clk s)) =
     {r \<in> set (rows db). is_live r \<and> (\<exists>d. publication_date r = Some d \<and> midnight d \<le> clk s)}
   \<and> fst (LiveManager_get_query_set db clk s) =
     filter (\<lambda>r. is_live r \<and> publication_date_lte r (clk s)) (rows db)"
  by (auto simp: live_query_set publication_date_lte_def date_le_datetime split: option.splits)

text \<open>The live rows of the example table on day 25.\<close>

theorem live_view_witness:
  "article 1 (Some 10) True False \<in> set (fst (LiveManager_get_query_set newsroom day_clock 0))
   \<and> article 3 (Some 30) True True \<notin> set (fst (LiveManager_get_query_set newsroom day_clock 0))
   \<and> article 5 (Some 7) False True \<notin> set (fst (LiveManager_get_query_set newsroom day_clock 0))"
proof -
  have d: "date_of (day_clock 0) = 25"
    by (simp add: date_of_def day_clock_def midnight_def microseconds_per_day_def)
  from live_view [of newsroom day_clock 0]
  have "set (fst (LiveManager_get_query_set newsroom day_clock 0)) =
     {r \<in> set (rows newsroom). is_live r \<and> (\<exists>d. publication_date r = Some d \<and> d \<le> date_of (day_clock 0))}"
    by blast
  then show ?thesis
    by (simp add: d newsroom_def article_def)
qed



lemma get_first_unfold:
  assumes "self = FeaturedManager \<or> self = FeaturedManagerWithImages"
  shows "fst (get_first self db clk s) =
     (case fst (get_query_set self db clk s) of
        r # _ \<Rightarrow> Inr r
      | [] \<Rightarrow> index0 (fst (LiveManager_get_query_set db clk (Suc s))))"
proof -
  have m: "self \<noteq> Manager" using assms by auto
  obtain qs s1 where q: "get_query_set self db clk s = (qs, s1)" by force
  have s1: "s1 = Suc s" using get_query_set_reads_once [OF m, of db clk s] q by simp
  show ?thesis
    using assms q s1
    by (cases qs) (auto simp: get_first_def index0_def live_query_set split: prod.splits)
qed

text \<open>
  Claim C5. On \<^verbatim>\<open>FeaturedManager\<close> (and its subclass), \<^verbatim>\<open>get_first\<close> returns the first record of
  the manager's own query set when that is not empty; when it is empty and the live query
  set, read at the next reading of the clock, is not, it returns the first record of the
  live query set.
\<close>

theorem get_first_featured_or_live:
  assumes "self = FeaturedManager \<or> self = FeaturedManagerWithImages"
  shows "(\<forall>r qs. fst (get_query_set self db clk s) = r # qs \<longrightarrow>
            fst (get_first self db clk s) = Inr r)
       \<and> (\<forall>r qs. fst (get_query_set self db clk s) = []
                 \<and> fst (LiveManager_get_query_set db clk (Suc s)) = r # qs \<longrightarrow>
            fst (get_first self db clk s) = Inr r)"
  by (simp add: get_first_unfold [OF assms] index0_def)

text \<open>The first featured article of the example table, and the fallback on a table without featured live article.\<close>

theorem get_first_featured_or_live_witness:
  "fst (get_first FeaturedManager newsroom day_clock 0) = Inr (article 2 (Some 20) True True)
   \<and> fst (get_first FeaturedManager quiet_newsroom day_clock 0) = Inr (article 1 (Some 10) True False)"
proof -
  have d: "date_of (day_clock 0) = 25" "date_of (day_clock (Suc 0)) = 25"
    by (simp_all add: date_of_def day_clock_def midnight_def microseconds_per_day_def)
  have f: "fst (get_query_set FeaturedManager newsroom day_clock 0) =
     article 2 (Some 20) True True # [article 4 (Some 5) True True]"
    by (simp add: featured_query_set live_query_set publication_date_lte_def d newsroom_def
        article_def)
  have q: "fst (get_query_set FeaturedManager quiet_newsroom day_clock 0) = []"
    by (simp add: featured_query_set live_query_set publication_date_lte_def d quiet_newsroom_def
        article_def)
  have l: "fst (LiveManager_get_query_set quiet_newsroom day_clock (Suc 0)) =
     article 1 (Some 10) True False # []"
    by (simp add: live_query_set publication_date_lte_def d quiet_newsroom_def article_def)
  have m: "FeaturedManager = FeaturedManager \<or> FeaturedManager = FeaturedManagerWithImages"
    by simp
  from get_first_featured_or_live [OF m, of newsroom day_clock 0] f
  have a: "fst (get_first FeaturedManager newsroom day_clock 0) = Inr (article 2 (Some 20) True True)"
    by blast
  from get_first_featured_or_live [OF m, of quiet_newsroom day_clock 0] q l
  have b: "fst (get_first FeaturedManager quiet_newsroom day_clock 0) = Inr (article 1 (Some 10) True False)"
    by blast
  from a b show ?thesis by simp
qed

text \<open>
  Claim C10. When the live query set is empty at both readings of the clock that
  \<^verbatim>\<open>get_first\<close> makes, the manager's own query set is empty too and \<^verbatim>\<open>get_first\<close> returns no
  record: its result is the \<^verbatim>\<open>IndexError\<close> of the fallback.
\<close>

theorem get_first_no_live:
  assumes "self = FeaturedManager \<or> self = FeaturedManagerWithImages"
    and "fst (LiveManager_get_query_set db clk s) = []"
    and "fst (LiveManager_get_query_set db clk (Suc s)) = []"
  shows "fst (get_query_set self db clk s) = []
       \<and> fst (get_first self db clk s) = Inl IndexError"
proof -
  have f: "fst (FeaturedManager_get_query_set db clk s) = []"
    using assms(2) by (simp add: featured_query_set)
  have "fst (get_query_set self db clk s) = []"
    using assms(1) f
    by (auto simp: featured_with_images_query_set filter_image_isnull_False_def)
  then show ?thesis
    using assms(3) by (simp add: get_first_unfold [OF assms(1)] index0_def)
qed

text \<open>A table whose articles are either dated in the future or not live.\<close>

theorem get_first_no_live_witness:
  "fst (LiveManager_get_query_set closed_newsroom day_clock 0) = []
   \<and> fst (get_first FeaturedManager closed_newsroom day_clock 0) = Inl IndexError"
proof -
  have d: "date_of (day_clock 0) = 25" "date_of (day_clock (Suc 0)) = 25"
    by (simp_all add: date_of_def day_clock_def midnight_def microseconds_per_day_def)
  have l0: "fst (LiveManager_get_query_set closed_newsroom day_clock 0) = []"
    by (simp add: live_query_set publication_date_lte_def d closed_newsroom_def article_def)
  have l1: "fst (LiveManager_get_query_set closed_newsroom day_clock (Suc 0)) = []"
    by (simp add: live_query_set publication_date_lte_def d closed_newsroom_def article_def)
  have m: "FeaturedManager = FeaturedManager \<or> FeaturedManager = FeaturedManagerWithImages"
    by simp
  from get_first_no_live [OF m l0 l1] l0 show ?thesis by simp
qed

section \<open>The hierarchy\<close>

lemma get_hierarchy_root:
  "parent x = None \<Longrightarrow> get_hierarchy x b = (if b then [x] else [])"
  by (cases x) simp

lemma get_hierarchy_child:
  "parent x = Some p \<Longrightarrow> get_hierarchy x b = get_hierarchy p True @ (if b then [x] else [])"
  by (cases x) simp

lemma ancestors_root: "parent x = None \<Longrightarrow> ancestors x = []"
  by (cases x) simp

lemma ancestors_child: "parent x = Some p \<Longrightarrow> ancestors x = p # ancestors p"
  by (cases x) simp

lemma get_hierarchy_ancestors:
  "get_hierarchy x b = rev (ancestors x) @ (if b then [x] else [])"
proof (induction x arbitrary: b rule: ancestors.induct)
  case (1 c k cd lu pd il ft so p)
  then show ?case by simp
next
  case (2 c k cd lu pd il ft so)
  then show ?case by simp
qed

lemma get_hierarchy_nonempty: "get_hierarchy x True \<noteq> []"
  by (simp add: get_hierarchy_ancestors)

lemma get_hierarchy_last: "last (get_hierarchy x True) = x"
  by (simp add: get_hierarchy_ancestors)

lemma get_hierarchy_hd: "parent (hd (get_hierarchy x True)) = None"
proof (induction x rule: ancestors.induct)
  case (1 c k cd lu pd il ft so p)
  then show ?case by (simp add: get_hierarchy_nonempty)
next
  case (2 c k cd lu pd il ft so)
  then show ?case by simp
qed

lemma get_hierarchy_links:
  "Suc i < length (get_hierarchy x True) \<Longrightarrow>
   parent (get_hierarchy x True ! Suc i) = Some (get_hierarchy x True ! i)"
proof (induction x arbitrary: i rule: ancestors.induct)
  case (1 c k cd lu pd il ft so p)
  let ?hp = "get_hierarchy p True"
  let ?x = "Instance c k cd lu pd il ft so (Some p)"
  have h: "get_hierarchy ?x True = ?hp @ [?x]" by simp
  show ?case
  proof (cases "Suc i < length ?hp")
    case True
    then show ?thesis using "1.IH" [of i] by (simp add: nth_append)
  next
    case False
    with "1.prems" have i: "Suc i = length ?hp" by simp
    then have "?hp ! i = last ?hp"
      by (metis diff_Suc_1 get_hierarchy_nonempty last_conv_nth)
    then show ?thesis using i by (simp add: nth_append get_hierarchy_last)
  qed
next
  case (2 c k cd lu pd il ft so)
  then show ?case by simp
qed

text \<open>
  Claim C8. With \<^verbatim>\<open>include_self=True\<close>, \<^verbatim>\<open>get_hierarchy\<close> returns the ancestors of the record
  from the root down, followed by the record itself: the list is \<open>[self]\<close> for a record
  without parent, the parent's list followed by \<open>self\<close> otherwise, and \<open>[parent, self]\<close>
  when the parent is a root; its first element has no parent, its last element is the
  record, and each element is the parent of the next. With \<^verbatim>\<open>include_self=False\<close> the record is
  left out, which gives the empty list for a root.
\<close>

theorem get_hierarchy_chain:
  "get_hierarchy x True = rev (ancestors x) @ [x]
   \<and> get_hierarchy x False = rev (ancestors x)
   \<and> (parent x = None \<longrightarrow> get_hierarchy x True = [x] \<and> get_hierarchy x False = [])
   \<and> (\<forall>p. parent x = Some p \<longrightarrow>
          get_hierarchy x True = get_hierarchy p True @ [x]
          \<and> get_hierarchy x False = get_hierarchy p True)
   \<and> (\<forall>p. parent x = Some p \<and> parent p = None \<longrightarrow> get_hierarchy x True = [p, x])
   \<and> parent (hd (get_hierarchy x True)) = None
   \<and> last (get_hierarchy x True) = x
   \<and> (\<forall>i. Suc i < length (get_hierarchy x True) \<longrightarrow>
          parent (get_hierarchy x True ! Suc i) = Some (get_hierarchy x True ! i))"
proof -
  have "get_hierarchy x True = rev (ancestors x) @ [x]"
    and "get_hierarchy x False = rev (ancestors x)"
    by (simp_all add: get_hierarchy_ancestors)
  moreover have "parent x = None \<longrightarrow> get_hierarchy x True = [x] \<and> get_hierarchy x False = []"
    by (simp add: get_hierarchy_root)
  moreover have "\<forall>p. parent x = Some p \<longrightarrow>
          get_hierarchy x True = get_hierarchy p True @ [x]
          \<and> get_hierarchy x False = get_hierarchy p True"
    by (simp add: get_hierarchy_child)
  moreover have "\<forall>p. parent x = Some p \<and> parent p = None \<longrightarrow> get_hierarchy x True = [p, x]"
    by (simp add: get_hierarchy_child get_hierarchy_root)
  ultimately show ?thesis
    using get_hierarchy_hd [of x] get_hierarchy_last [of x] get_hierarchy_links [of _ x]
    by blast
qed

text \<open>The chains of the example root and of its child.\<close>

theorem get_hierarchy_chain_witness:
  "get_hierarchy sub_category True = [top_category, sub_category]
   \<and> get_hierarchy sub_category False = [top_category]
   \<and> get_hierarchy top_category True = [top_category]
   \<and> get_hierarchy top_category False = []"
proof -
  have p: "parent sub_category = Some top_category" "parent top_category = None"
    by (simp_all add: sub_category_def top_category_def category_def)
  from get_hierarchy_chain [of sub_category] p
  have a: "get_hierarchy sub_category True = [top_category, sub_category]" by blast
  from get_hierarchy_chain [of sub_category] p
  have "get_hierarchy sub_category False = get_hierarchy top_category True" by blast
  moreover from get_hierarchy_chain [of top_category] p
  have b: "get_hierarchy top_category True = [top_category] \<and> get_hierarchy top_category False = []"
    by blast
  ultimately show ?thesis using a by simp
qed

section \<open>The pre-save handling\<close>

lemma date_set_keeps [simp]:
  "pk (fst (date_set clk inst s)) = pk inst"
  "cls (fst (date_set clk inst s)) = cls inst"
  "parent (fst (date_set clk inst s)) = parent inst"
  "publication_date (fst (date_set clk inst s)) = publication_date inst"
  by (simp_all add: date_set_def now_def split: prod.splits)

lemma set_publication_date_keeps [simp]:
  "pk (fst (set_publication_date sender clk inst s)) = pk inst"
  "cls (fst (set_publication_date sender clk inst s)) = cls inst"
  "parent (fst (set_publication_date sender clk inst s)) = parent inst"
  by (simp_all add: set_publication_date_def today_def)

lemma set_sort_order_keeps [simp]:
  "pk (set_sort_order sender inst) = pk inst"
  "cls (set_sort_order sender inst) = cls inst"
  "parent (set_sort_order sender inst) = parent inst"
  "publication_date (set_sort_order sender inst) = publication_date inst"
  by (simp_all add: set_sort_order_def)

lemma check_tree_keeps [simp]:
  "pk (check_tree sender tbl inst) = pk inst"
  "cls (check_tree sender tbl inst) = cls inst"
  "publication_date (check_tree sender tbl inst) = publication_date inst"
  by (simp_all add: check_tree_def)



lemma pre_save_unfold:
  "fst (pre_save tbl clk inst s) =
     check_tree (cls inst) tbl (set_sort_order (cls inst)
       (if cls inst = BaseContentModel
        then fst (set_publication_date (cls inst) clk
                   (fst (date_set clk inst s)) (snd (date_set clk inst s)))
        else fst (date_set clk inst s)))"
  by (simp add: pre_save_def pre_save_receivers_def split: prod.splits)

lemma pre_save_keeps [simp]:
  "pk (fst (pre_save tbl clk inst s)) = pk inst"
  "cls (fst (pre_save tbl clk inst s)) = cls inst"
  by (simp_all add: pre_save_unfold)


lemma set_publication_date_when_called:
  "publication_date inst = None \<Longrightarrow>
   publication_date (fst (set_publication_date sender clk inst s)) = Some (date_of (clk s))"
  by (simp add: set_publication_date_def py_not_def today_def)

lemma pre_save_dates:
  "creation_date (fst (pre_save tbl clk inst s)) = creation_date (fst (date_set clk inst s))"
  "last_updated (fst (pre_save tbl clk inst s)) = last_updated (fst (date_set clk inst s))"
  by (simp_all add: pre_save_unfold check_tree_def set_sort_order_def set_publication_date_def
      today_def)

lemma pre_save_ticks: "snd (date_set clk inst s) \<le> snd (pre_save tbl clk inst s)"
  by (simp add: pre_save_def pre_save_receivers_def set_publication_date_def today_def
      split: prod.splits)

lemma date_set_ticks:
  "isinstance inst DateAuditModel \<Longrightarrow>
   snd (date_set clk inst s) = (if creation_date inst = None then Suc (Suc s) else Suc s)"
  by (cases "creation_date inst") (simp_all add: date_set_fresh date_set_again)

lemma pre_save_stamped:
  assumes "isinstance x DateAuditModel" and "creation_date x = Some c"
  shows "creation_date (fst (pre_save tb clk x t)) = Some c"
    and "last_updated (fst (pre_save tb clk x t)) = Some (clk t)"
  using assms by (simp_all add: pre_save_dates date_set_again)

text \<open>
  Claim C4, amended. For an instance of \<^verbatim>\<open>DateAuditModel\<close>, the pre-save handling that
  every save runs assigns the creation date the reading of the clock only when it is
  unset, and assigns the update date the reading of the clock on every save. So a record
  saved without a creation date receives the reading at that save; saving any record
  that has a creation date leaves it as it is and makes the update date the reading at
  that save; and when the record of the first save is saved again later, the update date
  differs from the earlier one if the readings of the clock increase.
\<close>

theorem date_set_on_save:
  assumes audited: "isinstance inst DateAuditModel"
    and first_save: "pre_save tbl clk inst s = (inst1, s1)"
    and later: "s1 \<le> s'"
    and resave: "pre_save tbl' clk (set_pk k inst1) s' = (inst2, s2)"
  shows "creation_date inst1 = (case creation_date inst of None \<Rightarrow> Some (clk s) | Some c \<Rightarrow> Some c)
       \<and> last_updated inst1 = Some (clk (if creation_date inst = None then Suc s else s))
       \<and> (\<forall>x c tb t. isinstance x DateAuditModel \<and> creation_date x = Some c \<longrightarrow>
              creation_date (fst (pre_save tb clk x t)) = Some c
              \<and> last_updated (fst (pre_save tb clk x t)) = Some (clk t))
       \<and> creation_date inst2 = creation_date inst1
       \<and> last_updated inst2 = Some (clk s')
       \<and> (strict_mono clk \<longrightarrow> last_updated inst2 \<noteq> last_updated inst1)"
proof -
  let ?t = "if creation_date inst = None then Suc s else s"
  have i1: "inst1 = fst (pre_save tbl clk inst s)" and s1: "s1 = snd (pre_save tbl clk inst s)"
    using first_save by simp_all
  have c1: "creation_date inst1 = (case creation_date inst of None \<Rightarrow> Some (clk s) | Some c \<Rightarrow> Some c)"
    using audited unfolding i1 pre_save_dates
    by (cases "creation_date inst") (simp_all add: date_set_fresh date_set_again)
  have u1: "last_updated inst1 = Some (clk ?t)"
    using audited unfolding i1 pre_save_dates
    by (cases "creation_date inst") (simp_all add: date_set_fresh date_set_again)
  have ticks: "?t < s1"
    using pre_save_ticks [of clk inst s tbl] date_set_ticks [OF audited, of clk s]
    unfolding s1 by (cases "creation_date inst") simp_all
  have a1: "isinstance (set_pk k inst1) DateAuditModel"
    using audited by (simp add: i1 isinstance_def)
  obtain c where c: "creation_date (set_pk k inst1) = Some c"
    using c1 by (cases "creation_date inst") simp_all
  have i2: "inst2 = fst (pre_save tbl' clk (set_pk k inst1) s')"
    using resave by simp
  have c2: "creation_date inst2 = creation_date inst1"
    using pre_save_stamped(1) [OF a1 c, of tbl' clk s'] c by (simp add: i2)
  have u2: "last_updated inst2 = Some (clk s')"
    using pre_save_stamped(2) [OF a1 c, of tbl' clk s'] by (simp add: i2)
  have ch: "strict_mono clk \<longrightarrow> last_updated inst2 \<noteq> last_updated inst1"
  proof
    assume "strict_mono clk"
    moreover have "?t < s'" using ticks later by simp
    ultimately have "clk ?t < clk s'" by (simp add: strict_mono_def)
    then show "last_updated inst2 \<noteq> last_updated inst1" using u1 u2 by simp
  qed
  have st: "\<forall>x c tb t. isinstance x DateAuditModel \<and> creation_date x = Some c \<longrightarrow>
              creation_date (fst (pre_save tb clk x t)) = Some c
              \<and> last_updated (fst (pre_save tb clk x t)) = Some (clk t)"
    using pre_save_stamped by blast
  from c1 u1 st c2 u2 ch show ?thesis by blast
qed

text \<open>
  The example record saved at the readings of ticks 0 and 1 of a clock whose readings
  increase, and saved again at tick 5 with the primary key 1.
\<close>

theorem date_set_on_save_witness:
  "isinstance audited_example DateAuditModel
   \<and> strict_mono day_clock
   \<and> creation_date (fst (pre_save [] day_clock audited_example 0)) = Some (day_clock 0)
   \<and> last_updated (fst (pre_save [] day_clock audited_example 0)) = Some (day_clock 1)
   \<and> creation_date (fst (pre_save [] day_clock
          (set_pk (Some 1) (fst (pre_save [] day_clock audited_example 0))) 5)) = Some (day_clock 0)
   \<and> last_updated (fst (pre_save [] day_clock
          (set_pk (Some 1) (fst (pre_save [] day_clock audited_example 0))) 5)) = Some (day_clock 5)
   \<and> last_updated (fst (pre_save [] day_clock
          (set_pk (Some 1) (fst (pre_save [] day_clock audited_example 0))) 5))
       \<noteq> last_updated (fst (pre_save [] day_clock audited_example 0))"
proof -
  let ?p = "pre_save [] day_clock audited_example 0"
  let ?r = "pre_save [] day_clock (set_pk (Some 1) (fst ?p)) 5"
  have a: "isinstance audited_example DateAuditModel"
    by (simp add: isinstance_def audited_example_def)
  have m: "strict_mono day_clock"
    by (simp add: strict_mono_def day_clock_def)
  have n: "creation_date audited_example = None"
    by (simp add: audited_example_def)
  have f: "?p = (fst ?p, snd ?p)" by simp
  have r: "?r = (fst ?r, snd ?r)" by simp
  have "snd ?p = 2"
    using a n by (simp add: pre_save_def pre_save_receivers_def date_set_fresh
        audited_example_def)
  then have l: "snd ?p \<le> 5" by simp
  note t = date_set_on_save [OF a f l r]
  from t n have c1: "creation_date (fst ?p) = Some (day_clock 0)" by simp
  from t n have u1: "last_updated (fst ?p) = Some (day_clock 1)" by simp
  from t have "creation_date (fst ?r) = creation_date (fst ?p)" by blast
  with c1 have c2: "creation_date (fst ?r) = Some (day_clock 0)" by simp
  from t have u2: "last_updated (fst ?r) = Some (day_clock 5)" by blast
  from t m have ne: "last_updated (fst ?r) \<noteq> last_updated (fst ?p)" by blast
  from a m c1 u1 c2 u2 ne show ?thesis by blast
qed

text \<open>
  Claim C4 as stated fails where the clock gives the same reading twice: the example
  record, saved and then saved again on a clock that has not moved, has a creation date
  and keeps its update date.
\<close>

theorem date_set_stalled_clock:
  "isinstance audited_example DateAuditModel
   \<and> creation_date (snd (fst (save [] stalled_clock audited_example 0))) = Some 7
   \<and> last_updated (snd (fst (save [] stalled_clock audited_example 0))) = Some 7
   \<and> last_updated (snd (fst (save (fst (fst (save [] stalled_clock audited_example 0)))
                                  stalled_clock
                                  (snd (fst (save [] stalled_clock audited_example 0)))
                                  (snd (save [] stalled_clock audited_example 0)))))
       = last_updated (snd (fst (save [] stalled_clock audited_example 0)))"
  by code_simp

text \<open>
  Claim C2, as the code behaves. \<^verbatim>\<open>set_publication_date\<close> assigns today's date when it is
  called on an instance without publication date, but \<^verbatim>\<open>pre_save\<close> calls it only for the
  sender \<^verbatim>\<open>BaseContentModel\<close> itself. For an instance of any other class, and so for every
  instance of a subclass, the pre-save handling leaves the publication date as it is: an
  unset date stays unset.
\<close>

theorem pre_save_skips_set_publication_date:
  assumes "cls inst \<noteq> BaseContentModel"
  shows "publication_date (fst (pre_save tbl clk inst s)) = publication_date inst"
  using assms by (simp add: pre_save_unfold)

text \<open>An article of a class derived from \<^verbatim>\<open>BaseContentModel\<close>, saved without publication date.\<close>

theorem pre_save_skips_set_publication_date_witness:
  "isinstance unpublished_article BaseContentModel
   \<and> cls unpublished_article \<noteq> BaseContentModel
   \<and> publication_date unpublished_article = None
   \<and> publication_date (fst (pre_save [] day_clock unpublished_article 0)) = None"
proof -
  have c: "cls unpublished_article \<noteq> BaseContentModel"
    by (simp add: unpublished_article_def)
  from pre_save_skips_set_publication_date [OF c, of "[]" day_clock 0] c show ?thesis
    by (simp add: unpublished_article_def isinstance_def)
qed










lemma parent_id_set_pk [simp]: "parent_id (set_pk k x) = parent_id x"
  by (simp add: parent_id_def)





section \<open>The neighbour lookup\<close>














text \<open>
  Claim C1, as the code behaves. The query is ordered by the terms of \<^verbatim>\<open>Meta.ordering\<close>
  only: \<^verbatim>\<open>pk\<close> is compared in the conditions but is no term of the order, and
  \<^verbatim>\<open>reverse()\<close> flips the declared terms and nothing else. The three entries that tie in
  both ordering fields are strictly increasing in the order by the fields followed by
  \<^verbatim>\<open>pk\<close>, and each is comparable. With \<^verbatim>\<open>prev=False\<close> the function returns the record at
  the next position. With \<^verbatim>\<open>prev=True\<close> on the third record it returns the first, which
  is not the record at the position before; so it does for the third row of a model that
  declares no ordering, given as a query set. The last four results show the view and the
  fields the function reads: a manager given as \<^verbatim>\<open>qs\<close> is the view, an empty query set
  gives way to the default manager, and a field path is followed through the related
  object.
\<close>

theorem next_or_prev_in_order_ties:
  "sorted_wrt (precedes (ordering tied_entries @ [''pk''])) (objects tied_entries)
   \<and> list_all (comparable_in (ordering tied_entries @ [''pk''])) (objects tied_entries)
   \<and> next_or_prev_in_order tied_entries (objects tied_entries ! 0) False None =
         Inr (Some (objects tied_entries ! 1))
   \<and> next_or_prev_in_order tied_entries (objects tied_entries ! 1) False None =
         Inr (Some (objects tied_entries ! 2))
   \<and> next_or_prev_in_order tied_entries (objects tied_entries ! 1) True None =
         Inr (Some (objects tied_entries ! 0))
   \<and> next_or_prev_in_order tied_entries (objects tied_entries ! 2) True None =
         Inr (Some (objects tied_entries ! 0))
   \<and> objects tied_entries ! 0 \<noteq> objects tied_entries ! 1
   \<and> sorted_wrt (precedes (ordering unordered_rows @ [''pk''])) (objects unordered_rows)
   \<and> next_or_prev_in_order unordered_rows (objects unordered_rows ! 2) True
         (Some (QuerySet (objects unordered_rows))) =
         Inr (Some (objects unordered_rows ! 0))
   \<and> objects unordered_rows ! 0 \<noteq> objects unordered_rows ! 1
   \<and> next_or_prev_in_order tied_entries (entry_row 1 20 5) False (Some first_and_third) =
         Inr (Some (entry_row 3 20 5))
   \<and> next_or_prev_in_order tied_entries (entry_row 1 20 5) False (Some (QuerySet [])) =
         Inr (Some (entry_row 2 20 5))
   \<and> next_or_prev_in_order authored_rows (authored_row 2 1) False None =
         Inr (Some (authored_row 1 4))
   \<and> next_or_prev_in_order authored_rows (authored_row 1 4) True None =
         Inr (Some (authored_row 2 1))"
  by code_simp


lemma entries_sorted:
  "sorted_wrt (precedes (ordering entries @ [''pk''])) (objects entries)"
  by code_simp

lemma entries_comparable:
  "list_all (comparable_in (ordering entries @ [''pk''])) (objects entries)"
  by code_simp


end
